theory Spec2Isabelle
  imports Complex_Main
begin

section \<open>Workout session controller (WorkoutScreen)\<close>

text \<open>
  The embedding follows the React component \<open>WorkoutScreen\<close>. Its \<open>useState\<close> cells
  are the fields of one record; every handler is a function from the state before the
  call to the state after it, paired with the list of outward effects it performed
  (remote requests, alerts, scrolling) in program order. An \<open>await\<close> that throws is
  a branch of the model that runs the handler's \<open>catch\<close> and \<open>finally\<close> blocks.
  A handler runs as one step: the state it reads is the state it was called in.
  Console logging is left out.
\<close>

subsection \<open>JavaScript arrays and optional numbers\<close>

text \<open>\<open>xs[i]\<close> on an array without holes: \<open>undefined\<close> out of range.\<close>

definition js_nth :: "'a list \<Rightarrow> nat \<Rightarrow> 'a option" where
  "js_nth xs i = (if i < length xs then Some (xs ! i) else None)"

text \<open>
  An array that may have holes is a list of options. Reading out of range and reading a
  hole both give \<open>undefined\<close>; writing past the end extends the array with holes.
\<close>

definition js_index :: "'a option list \<Rightarrow> nat \<Rightarrow> 'a option" where
  "js_index xs i = (if i < length xs then xs ! i else None)"

definition js_assign :: "'a option list \<Rightarrow> nat \<Rightarrow> 'a \<Rightarrow> 'a option list" where
  "js_assign xs i v =
     (if i < length xs then xs[i := Some v]
      else xs @ replicate (i - length xs) None @ [Some v])"

text \<open>\<open>x || 0\<close> on an optional number.\<close>

definition or_zero :: "int option \<Rightarrow> int" where
  "or_zero x = (case x of None \<Rightarrow> 0 | Some v \<Rightarrow> v)"

subsection \<open>Plan data\<close>

text \<open>
  The plan types are declared in \<open>@/types/api/workout.types\<close>; the fields below are the
  ones the controller reads. Identifiers are numbers; a number is falsy exactly when it
  is zero.
\<close>

record block_exercise =
  id_ex :: int
  weight_ex :: "int option"
  duration_ex :: "int option"
  restTime_ex :: "int option"

record workout_block =
  id_block :: int
  exercises :: "block_exercise list"

record plan_day =
  id_day :: int
  workoutId :: int
  date :: string
  isComplete :: bool
  blocks :: "workout_block list"

subsection \<open>Session-local progress\<close>

text \<open>
  Modelled from the spec: \<open>ExerciseSet\<close> is declared in the \<open>SetTracker\<close> component; the
  data model gives a logged set its reps, weight and completion flag.
\<close>

record exercise_set =
  reps :: int
  weight :: int
  completed :: bool

text \<open>
  \<open>ExerciseProgress\<close>. A progress object is built by spreading, so each property may
  be absent: \<open>None\<close> is \<open>undefined\<close>. \<open>isSkipped\<close> is the property that
  \<open>skipCurrentExercise\<close> adds.
\<close>

record exercise_progress =
  setsCompleted :: "int option"
  repsCompleted :: "int option"
  roundsCompleted :: "int option"
  weightUsed :: "int option"
  sets :: "exercise_set list option"
  duration :: "int option"
  restTime :: "int option"
  notes_text :: "string option"
  isSkipped :: "bool option"

text \<open>The object \<open>{...undefined}\<close>.\<close>

definition empty_progress :: exercise_progress where
  "empty_progress =
     \<lparr>setsCompleted = None, repsCompleted = None, roundsCompleted = None,
      weightUsed = None, sets = None, duration = None, restTime = None,
      notes_text = None, isSkipped = None\<rparr>"

text \<open>A call \<open>updateProgress(field, value)\<close>: the property name with a value of its type.\<close>

datatype progress_update =
  SetsCompleted int
  | RepsCompleted int
  | RoundsCompleted int
  | WeightUsed int
  | Sets "exercise_set list"
  | Duration int
  | RestTime int
  | Notes string

text \<open>\<open>{...p, [field]: value}\<close>\<close>

fun set_field :: "progress_update \<Rightarrow> exercise_progress \<Rightarrow> exercise_progress" where
  "set_field (SetsCompleted v) p = p\<lparr>setsCompleted := Some v\<rparr>"
| "set_field (RepsCompleted v) p = p\<lparr>repsCompleted := Some v\<rparr>"
| "set_field (RoundsCompleted v) p = p\<lparr>roundsCompleted := Some v\<rparr>"
| "set_field (WeightUsed v) p = p\<lparr>weightUsed := Some v\<rparr>"
| "set_field (Sets v) p = p\<lparr>sets := Some v\<rparr>"
| "set_field (Duration v) p = p\<lparr>duration := Some v\<rparr>"
| "set_field (RestTime v) p = p\<lparr>restTime := Some v\<rparr>"
| "set_field (Notes v) p = p\<lparr>notes_text := Some v\<rparr>"

text \<open>
  Reading one property of a progress object, for stating which properties a handler
  leaves alone.
\<close>

datatype progress_field =
  F_setsCompleted | F_repsCompleted | F_roundsCompleted | F_weightUsed | F_sets
  | F_duration | F_restTime | F_notes | F_isSkipped

datatype progress_value =
  NumberValue int | SetsValue "exercise_set list" | TextValue string | BoolValue bool

fun get_field :: "progress_field \<Rightarrow> exercise_progress \<Rightarrow> progress_value option" where
  "get_field F_setsCompleted p = map_option NumberValue (setsCompleted p)"
| "get_field F_repsCompleted p = map_option NumberValue (repsCompleted p)"
| "get_field F_roundsCompleted p = map_option NumberValue (roundsCompleted p)"
| "get_field F_weightUsed p = map_option NumberValue (weightUsed p)"
| "get_field F_sets p = map_option SetsValue (sets p)"
| "get_field F_duration p = map_option NumberValue (duration p)"
| "get_field F_restTime p = map_option NumberValue (restTime p)"
| "get_field F_notes p = map_option TextValue (notes_text p)"
| "get_field F_isSkipped p = map_option BoolValue (isSkipped p)"

fun field_of :: "progress_update \<Rightarrow> progress_field" where
  "field_of (SetsCompleted v) = F_setsCompleted"
| "field_of (RepsCompleted v) = F_repsCompleted"
| "field_of (RoundsCompleted v) = F_roundsCompleted"
| "field_of (WeightUsed v) = F_weightUsed"
| "field_of (Sets v) = F_sets"
| "field_of (Duration v) = F_duration"
| "field_of (RestTime v) = F_restTime"
| "field_of (Notes v) = F_notes"

fun value_of :: "progress_update \<Rightarrow> progress_value" where
  "value_of (SetsCompleted v) = NumberValue v"
| "value_of (RepsCompleted v) = NumberValue v"
| "value_of (RoundsCompleted v) = NumberValue v"
| "value_of (WeightUsed v) = NumberValue v"
| "value_of (Sets v) = SetsValue v"
| "value_of (Duration v) = NumberValue v"
| "value_of (RestTime v) = NumberValue v"
| "value_of (Notes v) = TextValue v"

subsection \<open>Component state\<close>

record state =
  loading :: bool
  error :: "string option"
  workout :: "plan_day option"
  currentExerciseIndex :: nat
  isWorkoutStarted :: bool
  isWorkoutCompleted :: bool
  isPaused :: bool
  refreshing :: bool
  workoutTimer :: nat
  exerciseTimer :: nat
  exerciseProgress :: "exercise_progress option list"
  skippedExercises :: "int list"
  showCompleteModal :: bool
  showRestCompleteModal :: bool
  showSkipModal :: bool
  isCompletingExercise :: bool
  isSkippingExercise :: bool
  isRestTimerActive :: bool
  isRestTimerPaused :: bool
  restTimerCountdown :: int
  isWorkoutInProgress :: bool

text \<open>
  The \<open>useState\<close> initial values; \<open>isWorkoutInProgress\<close> is the flag of the
  surrounding workout context.
\<close>

definition initial_state :: state where
  "initial_state =
     \<lparr>loading = True, error = None, workout = None, currentExerciseIndex = 0,
      isWorkoutStarted = False, isWorkoutCompleted = False, isPaused = False,
      refreshing = False, workoutTimer = 0, exerciseTimer = 0, exerciseProgress = [],
      skippedExercises = [], showCompleteModal = False, showRestCompleteModal = False,
      showSkipModal = False, isCompletingExercise = False, isSkippingExercise = False,
      isRestTimerActive = False, isRestTimerPaused = False, restTimerCountdown = 0,
      isWorkoutInProgress = False\<rparr>"

definition getFlattenedExercises :: "state \<Rightarrow> block_exercise list" where
  "getFlattenedExercises s =
     (case workout s of None \<Rightarrow> [] | Some w \<Rightarrow> concat (map exercises (blocks w)))"

definition currentExercise :: "state \<Rightarrow> block_exercise option" where
  "currentExercise s = js_nth (getFlattenedExercises s) (currentExerciseIndex s)"

definition currentProgress :: "state \<Rightarrow> exercise_progress option" where
  "currentProgress s = js_index (exerciseProgress s) (currentExerciseIndex s)"

text \<open>The three-way split of the context-sync effect gives the day-level state.\<close>

datatype day_state = NotStarted | InProgress | Completed

definition dayState :: "state \<Rightarrow> day_state" where
  "dayState s =
     (if isWorkoutCompleted s then Completed
      else if isWorkoutStarted s then InProgress
      else NotStarted)"

subsection \<open>Overall progress\<close>


subsection \<open>Clock ticks\<close>

text \<open>
  One firing of the one-second interval of the workout clock. The interval exists only
  while the workout is started, not paused and not completed.
\<close>

definition workoutTick :: "state \<Rightarrow> state" where
  "workoutTick s =
     (if isWorkoutStarted s \<and> \<not> isPaused s \<and> \<not> isWorkoutCompleted s
      then s\<lparr>workoutTimer := workoutTimer s + 1, exerciseTimer := exerciseTimer s + 1\<rparr>
      else s)"

text \<open>
  One firing of the rest-timer interval, which exists only while the rest timer is
  active, not paused and above zero.
\<close>

definition restTimerTick :: "state \<Rightarrow> state" where
  "restTimerTick s =
     (if isRestTimerActive s \<and> \<not> isRestTimerPaused s \<and> restTimerCountdown s > 0
      then (if restTimerCountdown s \<le> 1
            then s\<lparr>isRestTimerActive := False, isRestTimerPaused := False,
                   showRestCompleteModal := True, restTimerCountdown := 0\<rparr>
            else s\<lparr>restTimerCountdown := restTimerCountdown s - 1\<rparr>)
      else s)"

subsection \<open>Synchronous handlers\<close>

definition updateProgress :: "progress_update \<Rightarrow> state \<Rightarrow> state" where
  "updateProgress u s =
     s\<lparr>exerciseProgress :=
         js_assign (exerciseProgress s) (currentExerciseIndex s)
           (set_field u (case js_index (exerciseProgress s) (currentExerciseIndex s) of
                           None \<Rightarrow> empty_progress | Some p \<Rightarrow> p))\<rparr>"

definition startWorkout :: "state \<Rightarrow> state" where
  "startWorkout s =
     s\<lparr>isWorkoutStarted := True, workoutTimer := 0, exerciseTimer := 0,
       isWorkoutInProgress := True\<rparr>"

definition togglePause :: "state \<Rightarrow> state" where
  "togglePause s = s\<lparr>isPaused := \<not> isPaused s\<rparr>"

definition currentRestTime :: "state \<Rightarrow> int" where
  "currentRestTime s =
     or_zero (case currentExercise s of None \<Rightarrow> None | Some ex \<Rightarrow> restTime_ex ex)"

definition startRestTimer :: "state \<Rightarrow> state" where
  "startRestTimer s =
     (if currentRestTime s > 0
      then s\<lparr>restTimerCountdown := currentRestTime s, isRestTimerActive := True,
             isRestTimerPaused := False\<rparr>
      else s)"

definition toggleRestTimerPause :: "state \<Rightarrow> state" where
  "toggleRestTimerPause s = s\<lparr>isRestTimerPaused := \<not> isRestTimerPaused s\<rparr>"

definition resetRestTimer :: "state \<Rightarrow> state" where
  "resetRestTimer s = s\<lparr>restTimerCountdown := currentRestTime s, isRestTimerPaused := False\<rparr>"

definition cancelRestTimer :: "state \<Rightarrow> state" where
  "cancelRestTimer s =
     s\<lparr>isRestTimerActive := False, isRestTimerPaused := False, restTimerCountdown := 0\<rparr>"

text \<open>
  The abandonment effect: when the context says that no workout is in progress while the
  component thinks one is started, the session is reset.
\<close>

definition abandonmentEffect :: "state \<Rightarrow> state" where
  "abandonmentEffect s =
     (if \<not> isWorkoutInProgress s \<and> isWorkoutStarted s \<and> \<not> isWorkoutCompleted s
      then s\<lparr>isWorkoutStarted := False, isPaused := False, workoutTimer := 0,
             exerciseTimer := 0, currentExerciseIndex := 0, isRestTimerActive := False,
             isRestTimerPaused := False, restTimerCountdown := 0\<rparr>
      else s)"

subsection \<open>Dates\<close>

text \<open>
  A \<open>Date\<close> is its time value, the milliseconds since the epoch. The calendar date of
  a day number is computed in the proleptic Gregorian calendar, as \<open>toISOString\<close> does;
  the year is printed with four digits, which covers the years 0 to 9999.
\<close>

definition msPerDay :: int where
  "msPerDay = 86400000"

definition civil_from_days :: "int \<Rightarrow> int \<times> int \<times> int" where
  "civil_from_days z0 =
     (let z = z0 + 719468;
          era = z div 146097;
          doe = z - era * 146097;
          yoe = (doe - doe div 1460 + doe div 36524 - doe div 146096) div 365;
          doy = doe - (365 * yoe + yoe div 4 - yoe div 100);
          mp = (5 * doy + 2) div 153;
          d = doy - (153 * mp + 2) div 5 + 1;
          m = (if mp < 10 then mp + 3 else mp - 9);
          y = yoe + era * 400
      in (if m \<le> 2 then y + 1 else y, m, d))"

definition digit_char :: "int \<Rightarrow> char" where
  "digit_char n = ''0123456789'' ! nat (n mod 10)"

definition pad2 :: "int \<Rightarrow> string" where
  "pad2 n = [digit_char (n div 10), digit_char n]"

definition pad4 :: "int \<Rightarrow> string" where
  "pad4 n = [digit_char (n div 1000), digit_char (n div 100), digit_char (n div 10),
             digit_char n]"

definition ymd_string :: "int \<times> int \<times> int \<Rightarrow> string" where
  "ymd_string c = (case c of (y, m, d) \<Rightarrow> pad4 y @ ''-'' @ pad2 m @ ''-'' @ pad2 d)"

text \<open>\<open>t.toISOString().split("T")[0]\<close>: the calendar date of the instant in UTC.\<close>

definition toISOString_date :: "int \<Rightarrow> string" where
  "toISOString_date t = ymd_string (civil_from_days (t div msPerDay))"

text \<open>
  \<open>d.setDate(today.getDate() + n)\<close> on a copy \<open>d\<close> of \<open>today\<close> moves the local
  calendar day by \<open>n\<close> and keeps the local time of day; in a time zone with a constant
  offset that is a shift by \<open>n\<close> whole days.
\<close>

definition setDate_plus :: "int \<Rightarrow> int \<Rightarrow> int" where
  "setDate_plus today n = today + n * msPerDay"

text \<open>
  Modelled from the spec: the local \<open>YYYY-MM-DD\<close> string of an instant, which is what
  the helpers \<open>getCurrentDate\<close> and \<open>formatDateAsString\<close> of \<open>@/utils\<close> are
  specified to produce. \<open>tz\<close> is \<open>getTimezoneOffset()\<close>, the minutes that UTC is
  ahead of local time.
\<close>

definition local_date_string :: "int \<Rightarrow> int \<Rightarrow> string" where
  "local_date_string tz t = ymd_string (civil_from_days ((t - tz * 60000) div msPerDay))"

text \<open>The date range that \<open>completeExercise\<close> passes to \<open>refreshDashboard\<close>.\<close>

definition dashboardRange :: "int \<Rightarrow> string \<times> string" where
  "dashboardRange today =
     (toISOString_date (setDate_plus today (- 30)), toISOString_date (setDate_plus today 7))"

subsection \<open>The environment of the asynchronous handlers\<close>

text \<open>
  What the awaited collaborators do during one call of a handler: whether each request
  resolves or throws, what the plan fetch returns, and the clock. The two date helpers
  of \<open>@/utils\<close> are parameters.
\<close>

datatype user_lookup = UserThrows | UserNull | UserFound

text \<open>
  \<open>FetchResponse None\<close> is a response without \<open>workout.planDays\<close>.
\<close>

datatype fetch_result = FetchThrows | FetchResponse "plan_day list option"

record env =
  getCurrentUser :: user_lookup
  createExerciseLog_ok :: bool
  markPlanDayAsComplete_ok :: bool
  refreshDashboard_ok :: bool
  skipExercise_ok :: bool
  fetchActiveWorkout :: fetch_result
  getCurrentDate :: string
  formatDateAsString :: "string \<Rightarrow> string"
  now :: int

record exercise_log_params =
  planDayExerciseId :: int
  sets_log :: "exercise_set list"
  durationCompleted :: "int option"
  isComplete_log :: bool
  timeTaken :: nat
  notes_log :: "string option"

datatype event =
  GetCurrentUserCall
  | FetchActiveWorkoutRequest bool
  | CreateExerciseLogRequest exercise_log_params
  | MarkPlanDayAsCompleteRequest int
  | RefreshDashboardRequest string string
  | SkipExerciseRequest int int
  | Alert string string
  | ScrollToTop

fun is_log_request :: "event \<Rightarrow> bool" where
  "is_log_request (CreateExerciseLogRequest ps) = True"
| "is_log_request e = False"

fun is_day_completion_request :: "event \<Rightarrow> bool" where
  "is_day_completion_request (MarkPlanDayAsCompleteRequest i) = True"
| "is_day_completion_request e = False"

fun is_refresh_request :: "event \<Rightarrow> bool" where
  "is_refresh_request (RefreshDashboardRequest startDate endDate) = True"
| "is_refresh_request e = False"

subsection \<open>loadWorkout\<close>

definition initialProgress :: "block_exercise \<Rightarrow> exercise_progress" where
  "initialProgress exercise =
     \<lparr>setsCompleted = Some 0, repsCompleted = Some 0, roundsCompleted = Some 0,
      weightUsed = Some (or_zero (weight_ex exercise)), sets = Some [],
      duration = Some (or_zero (duration_ex exercise)),
      restTime = Some (or_zero (restTime_ex exercise)), notes_text = Some [],
      isSkipped = None\<rparr>"

text \<open>The \<open>finally\<close> block of \<open>loadWorkout\<close>.\<close>

definition loadWorkout_finally :: "bool \<Rightarrow> state \<Rightarrow> state" where
  "loadWorkout_finally forceRefresh s =
     (if forceRefresh then s\<lparr>loading := False, refreshing := False\<rparr>
      else s\<lparr>loading := False\<rparr>)"

definition todaysWorkout :: "env \<Rightarrow> plan_day list \<Rightarrow> plan_day option" where
  "todaysWorkout env planDays =
     find (\<lambda>day. formatDateAsString env (date day) = getCurrentDate env) planDays"

definition loadWorkout :: "env \<Rightarrow> bool \<Rightarrow> state \<Rightarrow> state \<times> event list" where
  "loadWorkout env forceRefresh s =
     (let s1 = (if \<not> forceRefresh then s\<lparr>loading := True\<rparr> else s);
          s2 = s1\<lparr>error := None\<rparr>;
          s3 =
            (case fetchActiveWorkout env of
               FetchThrows \<Rightarrow> s2\<lparr>error := Some ''Failed to load workout. Please try again.''\<rparr>
             | FetchResponse None \<Rightarrow> s2\<lparr>workout := None\<rparr>
             | FetchResponse (Some planDays) \<Rightarrow>
                 (if planDays = [] then s2\<lparr>workout := None\<rparr>
                  else
                    (case todaysWorkout env planDays of
                       None \<Rightarrow> s2\<lparr>workout := None\<rparr>
                     | Some day \<Rightarrow>
                         (if isComplete day
                          then s2\<lparr>workout := Some day, isWorkoutCompleted := True,
                                  isWorkoutInProgress := False\<rparr>
                          else s2\<lparr>workout := Some day,
                                  exerciseProgress :=
                                    map (\<lambda>exercise. Some (initialProgress exercise))
                                      (concat (map exercises (blocks day)))\<rparr>))))
      in (loadWorkout_finally forceRefresh s3, [FetchActiveWorkoutRequest forceRefresh]))"

subsection \<open>completeExercise\<close>

definition completeFailedAlert :: event where
  "completeFailedAlert = Alert ''Error'' ''Failed to complete exercise. Please try again.''"

definition noSetsAlert :: event where
  "noSetsAlert =
     Alert ''No Sets Logged''
       ''Please click 'Add Set' and log your weights and reps before completing this exercise.''"

definition workoutCompleteAlert :: event where
  "workoutCompleteAlert =
     Alert ''Workout Complete!'' ''Congratulations! You've completed today's workout.''"

text \<open>The \<open>catch\<close> block followed by the \<open>finally\<close> block.\<close>

definition completeExercise_catch :: "state \<Rightarrow> event list \<Rightarrow> state \<times> event list" where
  "completeExercise_catch s evs = (s\<lparr>isCompletingExercise := False\<rparr>, evs @ [completeFailedAlert])"

text \<open>\<open>!currentProgress.sets || currentProgress.sets.length === 0\<close>\<close>

definition noSetsLogged :: "exercise_progress \<Rightarrow> bool" where
  "noSetsLogged pr = (case sets pr of None \<Rightarrow> True | Some logged \<Rightarrow> logged = [])"

text \<open>The argument of \<open>createExerciseLog\<close>.\<close>

definition exerciseLogParams ::
  "state \<Rightarrow> block_exercise \<Rightarrow> exercise_progress \<Rightarrow> exercise_log_params" where
  "exerciseLogParams s ex pr =
     \<lparr>planDayExerciseId = id_ex ex,
      sets_log = (case sets pr of None \<Rightarrow> [] | Some logged \<Rightarrow> logged),
      durationCompleted = duration pr, isComplete_log = True,
      timeTaken = exerciseTimer s, notes_log = notes_text pr\<rparr>"

text \<open>\<open>workout?.id\<close>, with \<open>undefined\<close> as the falsy number.\<close>

definition workout_id :: "state \<Rightarrow> int" where
  "workout_id s = (case workout s of None \<Rightarrow> 0 | Some w \<Rightarrow> id_day w)"

definition refreshDashboardRequest :: "env \<Rightarrow> event" where
  "refreshDashboardRequest env =
     RefreshDashboardRequest (fst (dashboardRange (now env))) (snd (dashboardRange (now env)))"

text \<open>
  The branch taken after the log request when the cursor is on the last exercise; \<open>evs\<close>
  are the effects so far.
\<close>

definition completeWorkout :: "env \<Rightarrow> state \<Rightarrow> event list \<Rightarrow> state \<times> event list" where
  "completeWorkout env s evs =
     (let done = (\<lambda>evs'.
            (s\<lparr>currentExerciseIndex := length (getFlattenedExercises s),
               isWorkoutCompleted := True, isWorkoutInProgress := False,
               showCompleteModal := False, isCompletingExercise := False\<rparr>,
             evs' @ [workoutCompleteAlert]));
          marked = evs @ [MarkPlanDayAsCompleteRequest (workout_id s)];
          refreshed = marked @ [refreshDashboardRequest env]
      in if workout_id s \<noteq> 0
         then (if \<not> markPlanDayAsComplete_ok env then completeExercise_catch s marked
               else if \<not> refreshDashboard_ok env then completeExercise_catch s refreshed
               else done refreshed)
         else done evs)"

definition completeExercise :: "env \<Rightarrow> state \<Rightarrow> state \<times> event list" where
  "completeExercise env s =
     (case currentExercise s of
        None \<Rightarrow> (s, [])
      | Some ex \<Rightarrow>
     (case currentProgress s of
        None \<Rightarrow> (s, [])
      | Some pr \<Rightarrow>
          (let s1 = s\<lparr>isCompletingExercise := True\<rparr> in
           if getCurrentUser env \<noteq> UserFound
           then completeExercise_catch s1 [GetCurrentUserCall]
           else if noSetsLogged pr
           then (s1\<lparr>isCompletingExercise := False\<rparr>, [GetCurrentUserCall, noSetsAlert])
           else
             (let evs = [GetCurrentUserCall,
                         CreateExerciseLogRequest (exerciseLogParams s ex pr)]
              in if \<not> createExerciseLog_ok env then completeExercise_catch s1 evs
                 else if int (currentExerciseIndex s)
                           < int (length (getFlattenedExercises s)) - 1
                 then (s1\<lparr>currentExerciseIndex := currentExerciseIndex s + 1,
                          exerciseTimer := 0, showCompleteModal := False,
                          isCompletingExercise := False\<rparr>,
                       evs @ [ScrollToTop])
                 else completeWorkout env s1 evs))))"

subsection \<open>skipCurrentExercise\<close>

definition skipFailedAlert :: event where
  "skipFailedAlert = Alert ''Error'' ''Failed to skip exercise. Please try again.''"

definition workoutFinishedAlert :: event where
  "workoutFinishedAlert = Alert ''Workout Complete!'' ''You've finished today's workout.''"

definition skipCurrentExercise_catch :: "state \<Rightarrow> event list \<Rightarrow> state \<times> event list" where
  "skipCurrentExercise_catch s evs = (s\<lparr>isSkippingExercise := False\<rparr>, evs @ [skipFailedAlert])"

text \<open>
  The local update after the skip request: the exercise id is appended to the skipped
  list and the progress object at the cursor gets \<open>isSkipped: true\<close>.
\<close>

definition markSkipped :: "block_exercise \<Rightarrow> state \<Rightarrow> state" where
  "markSkipped ex s =
     s\<lparr>skippedExercises := skippedExercises s @ [id_ex ex],
       exerciseProgress :=
         js_assign (exerciseProgress s) (currentExerciseIndex s)
           ((case js_index (exerciseProgress s) (currentExerciseIndex s) of
               None \<Rightarrow> empty_progress | Some p \<Rightarrow> p)
            \<lparr>isSkipped := Some True\<rparr>)\<rparr>"

text \<open>
  \<open>allProcessed\<close> reads the cursor and the skipped list of the state the handler was
  called in.
\<close>

definition allProcessed :: "state \<Rightarrow> bool" where
  "allProcessed s =
     list_all (\<lambda>(index, ex).
         index < currentExerciseIndex s \<or> id_ex ex \<in> set (skippedExercises s)
         \<or> index = currentExerciseIndex s)
       (enumerate 0 (getFlattenedExercises s))"

definition skipCurrentExercise :: "env \<Rightarrow> state \<Rightarrow> state \<times> event list" where
  "skipCurrentExercise env s =
     (case currentExercise s of
        None \<Rightarrow> (s, [])
      | Some ex \<Rightarrow>
     (case workout s of
        None \<Rightarrow> (s, [])
      | Some w \<Rightarrow>
          (let s1 = s\<lparr>isSkippingExercise := True\<rparr>;
               evs = [SkipExerciseRequest (workoutId w) (id_ex ex)]
           in if \<not> skipExercise_ok env then skipCurrentExercise_catch s1 evs
              else
                (let s2 = markSkipped ex s1
                 in if int (currentExerciseIndex s)
                         < int (length (getFlattenedExercises s)) - 1
                    then (s2\<lparr>currentExerciseIndex := currentExerciseIndex s + 1,
                             exerciseTimer := 0, showSkipModal := False,
                             isSkippingExercise := False\<rparr>,
                          evs @ [ScrollToTop])
                    else if allProcessed s \<and> id_day w \<noteq> 0
                    then (if \<not> markPlanDayAsComplete_ok env
                          then skipCurrentExercise_catch s2
                                 (evs @ [MarkPlanDayAsCompleteRequest (id_day w)])
                          else (s2\<lparr>currentExerciseIndex := length (getFlattenedExercises s),
                                   isWorkoutCompleted := True, isWorkoutInProgress := False,
                                   showSkipModal := False, isSkippingExercise := False\<rparr>,
                                evs @ [MarkPlanDayAsCompleteRequest (id_day w),
                                       workoutFinishedAlert]))
                    else (s2\<lparr>showSkipModal := False, isSkippingExercise := False\<rparr>, evs)))))"

subsection \<open>Sequences of controller operations\<close>

text \<open>
  \<open>Abandon\<close> is the navigation shell clearing the workout-in-progress flag of the
  context, followed by the abandonment effect that this triggers.
\<close>

datatype operation =
  Load bool
  | Start
  | TogglePause
  | UpdateProgress progress_update
  | CompleteExercise
  | SkipExercise
  | StartRestTimer
  | ToggleRestTimerPause
  | ResetRestTimer
  | CancelRestTimer
  | WorkoutTick
  | RestTimerTick
  | Abandon

fun step :: "env \<Rightarrow> operation \<Rightarrow> state \<Rightarrow> state \<times> event list" where
  "step env (Load forceRefresh) s = loadWorkout env forceRefresh s"
| "step env Start s = (startWorkout s, [])"
| "step env TogglePause s = (togglePause s, [])"
| "step env (UpdateProgress u) s = (updateProgress u s, [])"
| "step env CompleteExercise s = completeExercise env s"
| "step env SkipExercise s = skipCurrentExercise env s"
| "step env StartRestTimer s = (startRestTimer s, [])"
| "step env ToggleRestTimerPause s = (toggleRestTimerPause s, [])"
| "step env ResetRestTimer s = (resetRestTimer s, [])"
| "step env CancelRestTimer s = (cancelRestTimer s, [])"
| "step env WorkoutTick s = (workoutTick s, [])"
| "step env RestTimerTick s = (restTimerTick s, [])"
| "step env Abandon s = (abandonmentEffect (s\<lparr>isWorkoutInProgress := False\<rparr>), [])"

fun run :: "(env \<times> operation) list \<Rightarrow> state \<Rightarrow> state" where
  "run [] s = s"
| "run (eo # rest) s = run rest (fst (step (fst eo) (snd eo) s))"

subsection \<open>Sessions over one plan\<close>




subsection \<open>The workout clock in time\<close>

text \<open>
  The interval of the workout clock, kept in \<open>timerRef\<close>. Time is counted in
  milliseconds. \<open>timerRef\<close> is \<open>None\<close> when no interval is set and otherwise holds the
  milliseconds until the interval fires next. Timers are taken to fire exactly on time.
\<close>

record timed =
  st :: state
  timerRef :: "nat option"

text \<open>The dependency list of the timer effect.\<close>

definition timerDependencies :: "state \<Rightarrow> bool \<times> bool \<times> bool" where
  "timerDependencies s = (isWorkoutStarted s, isPaused s, isWorkoutCompleted s)"

text \<open>
  A handler followed by the timer effect. The effect runs only when one of its
  dependencies has changed: its cleanup clears the interval, and its body sets a fresh
  interval of 1000 ms when the workout is started, not paused and not completed.
\<close>

definition handle :: "(state \<Rightarrow> state) \<Rightarrow> timed \<Rightarrow> timed" where
  "handle f c =
     (let s' = f (st c)
      in \<lparr>st = s',
          timerRef =
            (if timerDependencies s' = timerDependencies (st c) then timerRef c
             else if isWorkoutStarted s' \<and> \<not> isPaused s' \<and> \<not> isWorkoutCompleted s'
                  then Some 1000 else None)\<rparr>)"

text \<open>The callback of the interval.\<close>

definition timerCallback :: "state \<Rightarrow> state" where
  "timerCallback s = s\<lparr>workoutTimer := workoutTimer s + 1, exerciseTimer := exerciseTimer s + 1\<rparr>"

text \<open>
  One millisecond passes: an interval that is due fires, which runs the callback and
  leaves the interval to fire again after 1000 ms.
\<close>

definition millisecond :: "timed \<Rightarrow> timed" where
  "millisecond c =
     (case timerRef c of
        None \<Rightarrow> c
      | Some r \<Rightarrow>
          if r \<le> 1 then \<lparr>st = timerCallback (st c), timerRef = Some 1000\<rparr>
          else c\<lparr>timerRef := Some (r - 1)\<rparr>)"

subsection \<open>What is rendered\<close>



subsection \<open>An example session\<close>

text \<open>
  A plan day of two blocks with one exercise each, an environment in which every
  collaborator succeeds, and the state after loading and starting the workout.
\<close>

definition example_press :: block_exercise where
  "example_press = \<lparr>id_ex = 11, weight_ex = Some 50, duration_ex = None, restTime_ex = Some 60\<rparr>"

definition example_plank :: block_exercise where
  "example_plank = \<lparr>id_ex = 12, weight_ex = None, duration_ex = Some 30, restTime_ex = None\<rparr>"

definition example_day :: plan_day where
  "example_day =
     \<lparr>id_day = 7, workoutId = 3, date = ''2024-01-01'', isComplete = False,
      blocks = [\<lparr>id_block = 1, exercises = [example_press]\<rparr>,
                \<lparr>id_block = 2, exercises = [example_plank]\<rparr>]\<rparr>"

definition example_env :: env where
  "example_env =
     \<lparr>getCurrentUser = UserFound, createExerciseLog_ok = True,
      markPlanDayAsComplete_ok = True, refreshDashboard_ok = True, skipExercise_ok = True,
      fetchActiveWorkout = FetchResponse (Some [example_day]),
      getCurrentDate = ''2024-01-01'', formatDateAsString = (\<lambda>d. d),
      now = 1704157200000\<rparr>"

definition example_set :: exercise_set where
  "example_set = \<lparr>reps = 10, weight = 50, completed = True\<rparr>"

definition example_started :: state where
  "example_started = run [(example_env, Load False), (example_env, Start)] initial_state"

text \<open>The example session with its clock, at the moment the workout is started.\<close>

definition example_clock :: timed where
  "example_clock =
     handle startWorkout
       \<lparr>st = fst (loadWorkout example_env False initial_state), timerRef = None\<rparr>"

text \<open>
  Further states of the example session: the first exercise with one set logged; the
  cursor on the last exercise with one set logged; a rest timer started on the first
  exercise, which is then completed; both exercises skipped.
\<close>

definition example_logged :: state where
  "example_logged = updateProgress (Sets [example_set]) example_started"

definition example_last :: state where
  "example_last =
     run [(example_env, CompleteExercise), (example_env, UpdateProgress (Sets [example_set]))]
       example_logged"

definition example_rested :: state where
  "example_rested =
     run [(example_env, StartRestTimer), (example_env, UpdateProgress (Sets [example_set])),
          (example_env, CompleteExercise)]
       example_started"


section \<open>Properties\<close>

subsection \<open>The branches of completeExercise\<close>

lemmas complete_defs = completeExercise_def completeWorkout_def completeExercise_catch_def

lemma workout_id_isCompletingExercise [simp]:
  "workout_id (s\<lparr>isCompletingExercise := b\<rparr>) = workout_id s"
  by (simp add: workout_id_def)

lemma getFlattenedExercises_isCompletingExercise [simp]:
  "getFlattenedExercises (s\<lparr>isCompletingExercise := b\<rparr>) = getFlattenedExercises s"
  by (simp add: getFlattenedExercises_def)

lemma completeExercise_idle:
  "currentExercise s = None \<or> currentProgress s = None \<Longrightarrow> completeExercise env s = (s, [])"
  by (auto simp: completeExercise_def split: option.splits)

lemma completeExercise_no_user:
  "currentExercise s = Some ex \<Longrightarrow> currentProgress s = Some pr \<Longrightarrow>
   getCurrentUser env \<noteq> UserFound \<Longrightarrow>
   completeExercise env s =
     (s\<lparr>isCompletingExercise := False\<rparr>, [GetCurrentUserCall, completeFailedAlert])"
  by (simp add: complete_defs)

lemma completeExercise_no_sets:
  "currentExercise s = Some ex \<Longrightarrow> currentProgress s = Some pr \<Longrightarrow>
   getCurrentUser env = UserFound \<Longrightarrow> noSetsLogged pr \<Longrightarrow>
   completeExercise env s =
     (s\<lparr>isCompletingExercise := False\<rparr>, [GetCurrentUserCall, noSetsAlert])"
  by (simp add: complete_defs)

lemma completeExercise_log_failed:
  "currentExercise s = Some ex \<Longrightarrow> currentProgress s = Some pr \<Longrightarrow>
   getCurrentUser env = UserFound \<Longrightarrow> \<not> noSetsLogged pr \<Longrightarrow>
   \<not> createExerciseLog_ok env \<Longrightarrow>
   completeExercise env s =
     (s\<lparr>isCompletingExercise := False\<rparr>,
      [GetCurrentUserCall, CreateExerciseLogRequest (exerciseLogParams s ex pr),
       completeFailedAlert])"
  by (simp add: complete_defs)

lemma completeExercise_advance:
  "currentExercise s = Some ex \<Longrightarrow> currentProgress s = Some pr \<Longrightarrow>
   getCurrentUser env = UserFound \<Longrightarrow> \<not> noSetsLogged pr \<Longrightarrow>
   createExerciseLog_ok env \<Longrightarrow>
   currentExerciseIndex s + 1 < length (getFlattenedExercises s) \<Longrightarrow>
   completeExercise env s =
     (s\<lparr>currentExerciseIndex := currentExerciseIndex s + 1, exerciseTimer := 0,
        showCompleteModal := False, isCompletingExercise := False\<rparr>,
      [GetCurrentUserCall, CreateExerciseLogRequest (exerciseLogParams s ex pr), ScrollToTop])"
  by (simp add: complete_defs)

lemma completeExercise_last:
  "currentExercise s = Some ex \<Longrightarrow> currentProgress s = Some pr \<Longrightarrow>
   getCurrentUser env = UserFound \<Longrightarrow> \<not> noSetsLogged pr \<Longrightarrow>
   createExerciseLog_ok env \<Longrightarrow>
   \<not> currentExerciseIndex s + 1 < length (getFlattenedExercises s) \<Longrightarrow>
   completeExercise env s =
     completeWorkout env (s\<lparr>isCompletingExercise := True\<rparr>)
       [GetCurrentUserCall, CreateExerciseLogRequest (exerciseLogParams s ex pr)]"
  by (simp add: completeExercise_def)

lemma completeWorkout_mark_failed:
  "workout_id s \<noteq> 0 \<Longrightarrow> \<not> markPlanDayAsComplete_ok env \<Longrightarrow>
   completeWorkout env (s\<lparr>isCompletingExercise := True\<rparr>) evs =
     (s\<lparr>isCompletingExercise := False\<rparr>,
      evs @ [MarkPlanDayAsCompleteRequest (workout_id s), completeFailedAlert])"
  by (simp add: completeWorkout_def completeExercise_catch_def)

lemma completeWorkout_refresh_failed:
  "workout_id s \<noteq> 0 \<Longrightarrow> markPlanDayAsComplete_ok env \<Longrightarrow> \<not> refreshDashboard_ok env \<Longrightarrow>
   completeWorkout env (s\<lparr>isCompletingExercise := True\<rparr>) evs =
     (s\<lparr>isCompletingExercise := False\<rparr>,
      evs @ [MarkPlanDayAsCompleteRequest (workout_id s), refreshDashboardRequest env,
             completeFailedAlert])"
  by (simp add: completeWorkout_def completeExercise_catch_def)

lemma completeWorkout_done:
  "workout_id s \<noteq> 0 \<Longrightarrow> markPlanDayAsComplete_ok env \<Longrightarrow> refreshDashboard_ok env \<Longrightarrow>
   completeWorkout env (s\<lparr>isCompletingExercise := True\<rparr>) evs =
     (s\<lparr>currentExerciseIndex := length (getFlattenedExercises s),
        isWorkoutCompleted := True, isWorkoutInProgress := False,
        showCompleteModal := False, isCompletingExercise := False\<rparr>,
      evs @ [MarkPlanDayAsCompleteRequest (workout_id s), refreshDashboardRequest env,
             workoutCompleteAlert])"
  by (simp add: completeWorkout_def)

lemma completeWorkout_unmarked:
  "workout_id s = 0 \<Longrightarrow>
   completeWorkout env (s\<lparr>isCompletingExercise := True\<rparr>) evs =
     (s\<lparr>currentExerciseIndex := length (getFlattenedExercises s),
        isWorkoutCompleted := True, isWorkoutInProgress := False,
        showCompleteModal := False, isCompletingExercise := False\<rparr>,
      evs @ [workoutCompleteAlert])"
  by (simp add: completeWorkout_def)

text \<open>Every call of \<open>completeExercise\<close> takes exactly one of nine paths.\<close>

lemma completeExercise_cases:
  obtains
    (idle) "currentExercise s = None \<or> currentProgress s = None"
    "completeExercise env s = (s, [])"
  | (no_user) ex pr where "currentExercise s = Some ex" "currentProgress s = Some pr"
    "getCurrentUser env \<noteq> UserFound"
    "completeExercise env s =
       (s\<lparr>isCompletingExercise := False\<rparr>, [GetCurrentUserCall, completeFailedAlert])"
  | (no_sets) ex pr where "currentExercise s = Some ex" "currentProgress s = Some pr"
    "getCurrentUser env = UserFound" "noSetsLogged pr"
    "completeExercise env s =
       (s\<lparr>isCompletingExercise := False\<rparr>, [GetCurrentUserCall, noSetsAlert])"
  | (log_failed) ex pr where "currentExercise s = Some ex" "currentProgress s = Some pr"
    "getCurrentUser env = UserFound" "\<not> noSetsLogged pr" "\<not> createExerciseLog_ok env"
    "completeExercise env s =
       (s\<lparr>isCompletingExercise := False\<rparr>,
        [GetCurrentUserCall, CreateExerciseLogRequest (exerciseLogParams s ex pr),
         completeFailedAlert])"
  | (advance) ex pr where "currentExercise s = Some ex" "currentProgress s = Some pr"
    "getCurrentUser env = UserFound" "\<not> noSetsLogged pr" "createExerciseLog_ok env"
    "currentExerciseIndex s + 1 < length (getFlattenedExercises s)"
    "completeExercise env s =
       (s\<lparr>currentExerciseIndex := currentExerciseIndex s + 1, exerciseTimer := 0,
          showCompleteModal := False, isCompletingExercise := False\<rparr>,
        [GetCurrentUserCall, CreateExerciseLogRequest (exerciseLogParams s ex pr),
         ScrollToTop])"
  | (mark_failed) ex pr where "currentExercise s = Some ex" "currentProgress s = Some pr"
    "getCurrentUser env = UserFound" "\<not> noSetsLogged pr" "createExerciseLog_ok env"
    "\<not> currentExerciseIndex s + 1 < length (getFlattenedExercises s)"
    "workout_id s \<noteq> 0" "\<not> markPlanDayAsComplete_ok env"
    "completeExercise env s =
       (s\<lparr>isCompletingExercise := False\<rparr>,
        [GetCurrentUserCall, CreateExerciseLogRequest (exerciseLogParams s ex pr)]
        @ [MarkPlanDayAsCompleteRequest (workout_id s), completeFailedAlert])"
  | (refresh_failed) ex pr where "currentExercise s = Some ex" "currentProgress s = Some pr"
    "getCurrentUser env = UserFound" "\<not> noSetsLogged pr" "createExerciseLog_ok env"
    "\<not> currentExerciseIndex s + 1 < length (getFlattenedExercises s)"
    "workout_id s \<noteq> 0" "markPlanDayAsComplete_ok env" "\<not> refreshDashboard_ok env"
    "completeExercise env s =
       (s\<lparr>isCompletingExercise := False\<rparr>,
        [GetCurrentUserCall, CreateExerciseLogRequest (exerciseLogParams s ex pr)]
        @ [MarkPlanDayAsCompleteRequest (workout_id s), refreshDashboardRequest env,
           completeFailedAlert])"
  | (finished) ex pr where "currentExercise s = Some ex" "currentProgress s = Some pr"
    "getCurrentUser env = UserFound" "\<not> noSetsLogged pr" "createExerciseLog_ok env"
    "\<not> currentExerciseIndex s + 1 < length (getFlattenedExercises s)"
    "workout_id s \<noteq> 0" "markPlanDayAsComplete_ok env" "refreshDashboard_ok env"
    "completeExercise env s =
       (s\<lparr>currentExerciseIndex := length (getFlattenedExercises s),
          isWorkoutCompleted := True, isWorkoutInProgress := False,
          showCompleteModal := False, isCompletingExercise := False\<rparr>,
        [GetCurrentUserCall, CreateExerciseLogRequest (exerciseLogParams s ex pr)]
        @ [MarkPlanDayAsCompleteRequest (workout_id s), refreshDashboardRequest env,
           workoutCompleteAlert])"
  | (unmarked) ex pr where "currentExercise s = Some ex" "currentProgress s = Some pr"
    "getCurrentUser env = UserFound" "\<not> noSetsLogged pr" "createExerciseLog_ok env"
    "\<not> currentExerciseIndex s + 1 < length (getFlattenedExercises s)"
    "workout_id s = 0"
    "completeExercise env s =
       (s\<lparr>currentExerciseIndex := length (getFlattenedExercises s),
          isWorkoutCompleted := True, isWorkoutInProgress := False,
          showCompleteModal := False, isCompletingExercise := False\<rparr>,
        [GetCurrentUserCall, CreateExerciseLogRequest (exerciseLogParams s ex pr)]
        @ [workoutCompleteAlert])"
proof (cases "currentExercise s = None \<or> currentProgress s = None")
  case True
  show thesis
    by (rule idle [OF True completeExercise_idle [OF True]])
next
  case False
  then obtain ex pr where e: "currentExercise s = Some ex" and p: "currentProgress s = Some pr"
    by auto
  show thesis
  proof (cases "getCurrentUser env = UserFound")
    case False
    show thesis
      by (rule no_user [OF e p False completeExercise_no_user [OF e p False]])
  next
    case u: True
    show thesis
    proof (cases "noSetsLogged pr")
      case True
      show thesis
        by (rule no_sets [OF e p u True completeExercise_no_sets [OF e p u True]])
    next
      case n: False
      show thesis
      proof (cases "createExerciseLog_ok env")
        case False
        show thesis
          by (rule log_failed [OF e p u n False completeExercise_log_failed [OF e p u n False]])
      next
        case l: True
        show thesis
        proof (cases "currentExerciseIndex s + 1 < length (getFlattenedExercises s)")
          case True
          show thesis
            by (rule advance [OF e p u n l True completeExercise_advance [OF e p u n l True]])
        next
          case z: False
          note last = completeExercise_last [OF e p u n l z]
          show thesis
          proof (cases "workout_id s = 0")
            case True
            show thesis
              by (rule unmarked [OF e p u n l z True])
                (simp only: last completeWorkout_unmarked [OF True])
          next
            case w: False
            show thesis
            proof (cases "markPlanDayAsComplete_ok env")
              case False
              show thesis
                by (rule mark_failed [OF e p u n l z w False])
                  (simp only: last completeWorkout_mark_failed [OF w False])
            next
              case m: True
              show thesis
              proof (cases "refreshDashboard_ok env")
                case False
                show thesis
                  by (rule refresh_failed [OF e p u n l z w m False])
                    (simp only: last completeWorkout_refresh_failed [OF w m False])
              next
                case True
                show thesis
                  by (rule finished [OF e p u n l z w m True])
                    (simp only: last completeWorkout_done [OF w m True])
              qed
            qed
          qed
        qed
      qed
    qed
  qed
qed

subsection \<open>The branches of skipCurrentExercise\<close>

lemmas skip_defs = skipCurrentExercise_def skipCurrentExercise_catch_def

lemma skipCurrentExercise_idle:
  "currentExercise s = None \<or> workout s = None \<Longrightarrow> skipCurrentExercise env s = (s, [])"
  by (auto simp: skipCurrentExercise_def split: option.splits)

lemma skipCurrentExercise_request_failed:
  "currentExercise s = Some ex \<Longrightarrow> workout s = Some w \<Longrightarrow> \<not> skipExercise_ok env \<Longrightarrow>
   skipCurrentExercise env s =
     (s\<lparr>isSkippingExercise := False\<rparr>,
      [SkipExerciseRequest (workoutId w) (id_ex ex), skipFailedAlert])"
  by (simp add: skip_defs)

lemma skipCurrentExercise_advance:
  "currentExercise s = Some ex \<Longrightarrow> workout s = Some w \<Longrightarrow> skipExercise_ok env \<Longrightarrow>
   currentExerciseIndex s + 1 < length (getFlattenedExercises s) \<Longrightarrow>
   skipCurrentExercise env s =
     ((markSkipped ex s)\<lparr>currentExerciseIndex := currentExerciseIndex s + 1,
        exerciseTimer := 0, showSkipModal := False, isSkippingExercise := False\<rparr>,
      [SkipExerciseRequest (workoutId w) (id_ex ex), ScrollToTop])"
  by (simp add: skip_defs markSkipped_def)

lemma skipCurrentExercise_mark_failed:
  "currentExercise s = Some ex \<Longrightarrow> workout s = Some w \<Longrightarrow> skipExercise_ok env \<Longrightarrow>
   \<not> currentExerciseIndex s + 1 < length (getFlattenedExercises s) \<Longrightarrow>
   allProcessed s \<and> id_day w \<noteq> 0 \<Longrightarrow> \<not> markPlanDayAsComplete_ok env \<Longrightarrow>
   skipCurrentExercise env s =
     ((markSkipped ex s)\<lparr>isSkippingExercise := False\<rparr>,
      [SkipExerciseRequest (workoutId w) (id_ex ex),
       MarkPlanDayAsCompleteRequest (id_day w), skipFailedAlert])"
  by (simp add: skip_defs markSkipped_def)

lemma skipCurrentExercise_finished:
  "currentExercise s = Some ex \<Longrightarrow> workout s = Some w \<Longrightarrow> skipExercise_ok env \<Longrightarrow>
   \<not> currentExerciseIndex s + 1 < length (getFlattenedExercises s) \<Longrightarrow>
   allProcessed s \<and> id_day w \<noteq> 0 \<Longrightarrow> markPlanDayAsComplete_ok env \<Longrightarrow>
   skipCurrentExercise env s =
     ((markSkipped ex s)\<lparr>currentExerciseIndex := length (getFlattenedExercises s),
        isWorkoutCompleted := True, isWorkoutInProgress := False,
        showSkipModal := False, isSkippingExercise := False\<rparr>,
      [SkipExerciseRequest (workoutId w) (id_ex ex),
       MarkPlanDayAsCompleteRequest (id_day w), workoutFinishedAlert])"
  by (simp add: skip_defs markSkipped_def)

lemma skipCurrentExercise_stays:
  "currentExercise s = Some ex \<Longrightarrow> workout s = Some w \<Longrightarrow> skipExercise_ok env \<Longrightarrow>
   \<not> currentExerciseIndex s + 1 < length (getFlattenedExercises s) \<Longrightarrow>
   \<not> (allProcessed s \<and> id_day w \<noteq> 0) \<Longrightarrow>
   skipCurrentExercise env s =
     ((markSkipped ex s)\<lparr>showSkipModal := False, isSkippingExercise := False\<rparr>,
      [SkipExerciseRequest (workoutId w) (id_ex ex)])"
  by (cases "allProcessed s") (simp_all add: skip_defs markSkipped_def)

text \<open>Every call of \<open>skipCurrentExercise\<close> takes exactly one of six paths.\<close>

lemma skipCurrentExercise_cases:
  obtains
    (idle) "currentExercise s = None \<or> workout s = None"
    "skipCurrentExercise env s = (s, [])"
  | (request_failed) ex w where "currentExercise s = Some ex" "workout s = Some w" "\<not> skipExercise_ok env"
    "skipCurrentExercise env s =
       (s\<lparr>isSkippingExercise := False\<rparr>,
        [SkipExerciseRequest (workoutId w) (id_ex ex), skipFailedAlert])"
  | (advance) ex w where "currentExercise s = Some ex" "workout s = Some w" "skipExercise_ok env"
    "currentExerciseIndex s + 1 < length (getFlattenedExercises s)"
    "skipCurrentExercise env s =
       ((markSkipped ex s)\<lparr>currentExerciseIndex := currentExerciseIndex s + 1,
          exerciseTimer := 0, showSkipModal := False, isSkippingExercise := False\<rparr>,
        [SkipExerciseRequest (workoutId w) (id_ex ex), ScrollToTop])"
  | (mark_failed) ex w where "currentExercise s = Some ex" "workout s = Some w" "skipExercise_ok env"
    "\<not> currentExerciseIndex s + 1 < length (getFlattenedExercises s)"
    "allProcessed s \<and> id_day w \<noteq> 0" "\<not> markPlanDayAsComplete_ok env"
    "skipCurrentExercise env s =
       ((markSkipped ex s)\<lparr>isSkippingExercise := False\<rparr>,
        [SkipExerciseRequest (workoutId w) (id_ex ex),
         MarkPlanDayAsCompleteRequest (id_day w), skipFailedAlert])"
  | (finished) ex w where "currentExercise s = Some ex" "workout s = Some w" "skipExercise_ok env"
    "\<not> currentExerciseIndex s + 1 < length (getFlattenedExercises s)"
    "allProcessed s \<and> id_day w \<noteq> 0" "markPlanDayAsComplete_ok env"
    "skipCurrentExercise env s =
       ((markSkipped ex s)\<lparr>currentExerciseIndex := length (getFlattenedExercises s),
          isWorkoutCompleted := True, isWorkoutInProgress := False,
          showSkipModal := False, isSkippingExercise := False\<rparr>,
        [SkipExerciseRequest (workoutId w) (id_ex ex),
         MarkPlanDayAsCompleteRequest (id_day w), workoutFinishedAlert])"
  | (stays) ex w where "currentExercise s = Some ex" "workout s = Some w" "skipExercise_ok env"
    "\<not> currentExerciseIndex s + 1 < length (getFlattenedExercises s)"
    "\<not> (allProcessed s \<and> id_day w \<noteq> 0)"
    "skipCurrentExercise env s =
       ((markSkipped ex s)\<lparr>showSkipModal := False, isSkippingExercise := False\<rparr>,
        [SkipExerciseRequest (workoutId w) (id_ex ex)])"
proof (cases "currentExercise s = None \<or> workout s = None")
  case True
  show thesis
    by (rule idle [OF True skipCurrentExercise_idle [OF True]])
next
  case False
  then obtain ex w where e: "currentExercise s = Some ex" and w: "workout s = Some w"
    by auto
  show thesis
  proof (cases "skipExercise_ok env")
    case False
    show thesis
      by (rule request_failed [OF e w False skipCurrentExercise_request_failed [OF e w False]])
  next
    case k: True
    show thesis
    proof (cases "currentExerciseIndex s + 1 < length (getFlattenedExercises s)")
      case True
      show thesis
        by (rule advance [OF e w k True skipCurrentExercise_advance [OF e w k True]])
    next
      case z: False
      show thesis
      proof (cases "allProcessed s \<and> id_day w \<noteq> 0")
        case False
        show thesis
          by (rule stays [OF e w k z False skipCurrentExercise_stays [OF e w k z False]])
      next
        case a: True
        show thesis
        proof (cases "markPlanDayAsComplete_ok env")
          case False
          show thesis
            by (rule mark_failed [OF e w k z a False
                  skipCurrentExercise_mark_failed [OF e w k z a False]])
        next
          case True
          show thesis
            by (rule finished [OF e w k z a True
                  skipCurrentExercise_finished [OF e w k z a True]])
        qed
      qed
    qed
  qed
qed

subsection \<open>The workout clock\<close>

lemma dayState_InProgress:
  "dayState s = InProgress \<longleftrightarrow> isWorkoutStarted s \<and> \<not> isWorkoutCompleted s"
  by (simp add: dayState_def)

lemma millisecond_no_interval: "timerRef c = None \<Longrightarrow> (millisecond ^^ d) c = c"
  by (induction d) (simp_all add: millisecond_def)

lemma millisecond_before_tick:
  "timerRef c = Some r \<Longrightarrow> d < r \<Longrightarrow> (millisecond ^^ d) c = c\<lparr>timerRef := Some (r - d)\<rparr>"
proof (induction d arbitrary: c r)
  case 0
  then show ?case by simp
next
  case (Suc d)
  have c': "millisecond c = c\<lparr>timerRef := Some (r - 1)\<rparr>"
    using Suc.prems by (simp add: millisecond_def)
  have "timerRef (millisecond c) = Some (r - 1)"
    by (simp add: c')
  from Suc.IH [OF this] Suc.prems(2) show ?case
    by (simp add: funpow_swap1 c')
qed

lemma millisecond_counters:
  "timerRef c = Some r \<Longrightarrow> 0 < r \<Longrightarrow> r \<le> 1000 \<Longrightarrow>
   workoutTimer (st ((millisecond ^^ e) c)) = workoutTimer (st c) + (e + (1000 - r)) div 1000
   \<and> exerciseTimer (st ((millisecond ^^ e) c))
       = exerciseTimer (st c) + (e + (1000 - r)) div 1000"
proof (induction e arbitrary: c r)
  case 0
  then show ?case by simp
next
  case (Suc e)
  show ?case
  proof (cases "r \<le> 1")
    case True
    then have r: "r = 1"
      using Suc.prems(2) by simp
    have c': "millisecond c = \<lparr>st = timerCallback (st c), timerRef = Some 1000\<rparr>"
      using Suc.prems(1) r by (simp add: millisecond_def)
    have "timerRef (millisecond c) = Some 1000"
      by (simp add: c')
    from Suc.IH [OF this] show ?thesis
      by (simp add: funpow_swap1 c' r timerCallback_def)
  next
    case False
    have c': "millisecond c = c\<lparr>timerRef := Some (r - 1)\<rparr>"
      using Suc.prems(1) False by (simp add: millisecond_def)
    have "timerRef (millisecond c) = Some (r - 1)"
      by (simp add: c')
    from Suc.IH [OF this] False Suc.prems(3) show ?thesis
      by (simp add: funpow_swap1 c' Suc_diff_le)
  qed
qed

lemma handle_togglePause_pauses:
  "isWorkoutStarted (st c) \<Longrightarrow> \<not> isWorkoutCompleted (st c) \<Longrightarrow> \<not> isPaused (st c) \<Longrightarrow>
   handle togglePause c = \<lparr>st = (st c)\<lparr>isPaused := True\<rparr>, timerRef = None\<rparr>"
  by (simp add: handle_def togglePause_def timerDependencies_def)

lemma handle_togglePause_resumes:
  "isWorkoutStarted (st c) \<Longrightarrow> \<not> isWorkoutCompleted (st c) \<Longrightarrow> isPaused (st c) \<Longrightarrow>
   handle togglePause c = \<lparr>st = (st c)\<lparr>isPaused := False\<rparr>, timerRef = Some 1000\<rparr>"
  by (simp add: handle_def togglePause_def timerDependencies_def)

text \<open>
  Claim C7, as stated, fails. The example workout runs for 900 ms, is paused for 50 ms,
  resumed and runs for another 900 ms: after 1800 ms of running time both counters are
  still 0, while the same 1800 ms without the pause give 1. One second is lost across
  the pause/resume cycle.
\<close>

theorem pause_loses_partial_second_counterexample:
  "workoutTimer (st ((millisecond ^^ 1800) example_clock)) = 1
   \<and> exerciseTimer (st ((millisecond ^^ 1800) example_clock)) = 1
   \<and> workoutTimer
        (st ((millisecond ^^ 900)
               (handle togglePause
                  ((millisecond ^^ 50) (handle togglePause ((millisecond ^^ 900) example_clock))))))
       = 0
   \<and> exerciseTimer
        (st ((millisecond ^^ 900)
               (handle togglePause
                  ((millisecond ^^ 50) (handle togglePause ((millisecond ^^ 900) example_clock))))))
       = 0"
proof -
  let ?paused = "\<lparr>st = (st example_clock)\<lparr>isPaused := True\<rparr>, timerRef = None\<rparr>"
  let ?resumed = "\<lparr>st = (st example_clock)\<lparr>isPaused := False\<rparr>, timerRef = Some 1000\<rparr>"
  have t: "timerRef example_clock = Some 1000"
    by code_simp
  have flags: "isWorkoutStarted (st example_clock)" "\<not> isWorkoutCompleted (st example_clock)"
    "\<not> isPaused (st example_clock)"
    by code_simp+
  have zero: "workoutTimer (st example_clock) = 0" "exerciseTimer (st example_clock) = 0"
    by code_simp+
  have straight: "workoutTimer (st ((millisecond ^^ 1800) example_clock)) = 1"
    "exerciseTimer (st ((millisecond ^^ 1800) example_clock)) = 1"
    using millisecond_counters [OF t, of 1800] zero by simp_all
  have "(millisecond ^^ 900) example_clock = example_clock\<lparr>timerRef := Some 100\<rparr>"
    using millisecond_before_tick [OF t, of 900] by simp
  moreover have "handle togglePause (example_clock\<lparr>timerRef := Some 100\<rparr>) = ?paused"
    using flags by (simp add: handle_togglePause_pauses)
  moreover have "(millisecond ^^ 50) ?paused = ?paused"
    by (rule millisecond_no_interval) simp
  moreover have "handle togglePause ?paused = ?resumed"
    using flags by (simp add: handle_togglePause_resumes)
  moreover have "(millisecond ^^ 900) ?resumed = ?resumed\<lparr>timerRef := Some 100\<rparr>"
    using millisecond_before_tick [of ?resumed 1000 900] by simp
  ultimately have
    "(millisecond ^^ 900)
       (handle togglePause
          ((millisecond ^^ 50) (handle togglePause ((millisecond ^^ 900) example_clock))))
     = ?resumed\<lparr>timerRef := Some 100\<rparr>"
    by (simp only:)
  then show ?thesis
    using straight zero by simp
qed

text \<open>
  Claim C7, amended. Take a started session (day state \<open>InProgress\<close>) that is not paused
  and whose interval fires next in \<open>r\<close> ms, so \<open>1000 - r\<close> ms have run since the last
  tick. When \<open>togglePause\<close> is called the interval is cleared and both counters keep
  their values; however many milliseconds \<open>d\<close> then pass, nothing changes. When
  \<open>togglePause\<close> is called again a fresh interval of 1000 ms is set, and \<open>e\<close> ms later
  each counter is the value it held when paused plus \<open>e div 1000\<close>: the counters resume
  from exactly the paused values and no second is counted twice. The \<open>1000 - r\<close> ms run
  before the pause are discarded: without the pause each counter would after \<open>e\<close> ms be
  its value plus \<open>(e + (1000 - r)) div 1000\<close>.
\<close>

theorem pause_freezes_resume_restarts_second:
  assumes "dayState (st c) = InProgress" and "\<not> isPaused (st c)"
    and "timerRef c = Some r" and "0 < r" and "r \<le> 1000"
  shows "timerRef (handle togglePause c) = None
       \<and> workoutTimer (st (handle togglePause c)) = workoutTimer (st c)
       \<and> exerciseTimer (st (handle togglePause c)) = exerciseTimer (st c)
       \<and> (millisecond ^^ d) (handle togglePause c) = handle togglePause c
       \<and> timerRef (handle togglePause ((millisecond ^^ d) (handle togglePause c))) = Some 1000
       \<and> workoutTimer
            (st ((millisecond ^^ e)
                   (handle togglePause ((millisecond ^^ d) (handle togglePause c)))))
           = workoutTimer (st c) + e div 1000
       \<and> exerciseTimer
            (st ((millisecond ^^ e)
                   (handle togglePause ((millisecond ^^ d) (handle togglePause c)))))
           = exerciseTimer (st c) + e div 1000
       \<and> workoutTimer (st ((millisecond ^^ e) c))
           = workoutTimer (st c) + (e + (1000 - r)) div 1000
       \<and> exerciseTimer (st ((millisecond ^^ e) c))
           = exerciseTimer (st c) + (e + (1000 - r)) div 1000"
proof -
  let ?p = "handle togglePause c"
  let ?q = "handle togglePause ((millisecond ^^ d) ?p)"
  have run: "isWorkoutStarted (st c)" "\<not> isWorkoutCompleted (st c)"
    using assms(1) by (simp_all add: dayState_InProgress)
  have p: "?p = \<lparr>st = (st c)\<lparr>isPaused := True\<rparr>, timerRef = None\<rparr>"
    using run assms(2) by (rule handle_togglePause_pauses)
  have frozen: "(millisecond ^^ d) ?p = ?p"
    by (rule millisecond_no_interval) (simp add: p)
  have "handle togglePause ?p = \<lparr>st = (st c)\<lparr>isPaused := False\<rparr>, timerRef = Some 1000\<rparr>"
    unfolding p using run by (simp add: handle_togglePause_resumes)
  then have q: "?q = \<lparr>st = (st c)\<lparr>isPaused := False\<rparr>, timerRef = Some 1000\<rparr>"
    unfolding frozen .
  have "timerRef ?q = Some 1000"
    by (simp add: q)
  from millisecond_counters [OF this, of e]
  have resumed: "workoutTimer (st ((millisecond ^^ e) ?q)) = workoutTimer (st c) + e div 1000"
    "exerciseTimer (st ((millisecond ^^ e) ?q)) = exerciseTimer (st c) + e div 1000"
    by (simp_all add: q)
  have paused: "timerRef ?p = None" "workoutTimer (st ?p) = workoutTimer (st c)"
    "exerciseTimer (st ?p) = exerciseTimer (st c)"
    by (simp_all add: p)
  have "timerRef ?q = Some 1000"
    by (simp add: q)
  with paused frozen resumed millisecond_counters [OF assms(3,4,5), of e] show ?thesis
    by blast
qed

theorem pause_freezes_resume_restarts_second_witness:
  "dayState (st (example_clock\<lparr>timerRef := Some 100\<rparr>)) = InProgress
   \<and> \<not> isPaused (st (example_clock\<lparr>timerRef := Some 100\<rparr>))
   \<and> workoutTimer (st (example_clock\<lparr>timerRef := Some 100\<rparr>)) = 0
   \<and> workoutTimer
        (st ((millisecond ^^ 900)
               (handle togglePause
                  ((millisecond ^^ 50)
                     (handle togglePause (example_clock\<lparr>timerRef := Some 100\<rparr>))))))
       = 0
   \<and> workoutTimer (st ((millisecond ^^ 900) (example_clock\<lparr>timerRef := Some 100\<rparr>))) = 1"
proof -
  let ?c = "example_clock\<lparr>timerRef := Some 100\<rparr>"
  have a: "dayState (st ?c) = InProgress"
    by code_simp
  have b: "\<not> isPaused (st ?c)"
    by code_simp
  have c: "timerRef ?c = Some 100"
    by simp
  have d: "workoutTimer (st ?c) = 0"
    by code_simp
  have r: "(0::nat) < 100" "(100::nat) \<le> 1000"
    by simp_all
  note w = pause_freezes_resume_restarts_second [OF a b c r, of 50 900]
  from w
  have e: "workoutTimer
          (st ((millisecond ^^ 900)
                 (handle togglePause ((millisecond ^^ 50) (handle togglePause ?c)))))
        = workoutTimer (st ?c) + 900 div 1000"
    and f: "workoutTimer (st ((millisecond ^^ 900) ?c))
        = workoutTimer (st ?c) + (900 + (1000 - 100)) div 1000"
    by blast+
  have "workoutTimer
          (st ((millisecond ^^ 900)
                 (handle togglePause ((millisecond ^^ 50) (handle togglePause ?c))))) = 0"
    unfolding e d by simp
  moreover have "workoutTimer (st ((millisecond ^^ 900) ?c)) = 1"
    unfolding f d by simp
  ultimately show ?thesis
    using a b d by blast
qed

subsection \<open>The rest timer\<close>

lemma restTimerTick_funpow:
  "isRestTimerActive t \<Longrightarrow> \<not> isRestTimerPaused t \<Longrightarrow> restTimerCountdown t = c \<Longrightarrow> 0 < c \<Longrightarrow>
   (restTimerTick ^^ k) t =
     (if int k < c then t\<lparr>restTimerCountdown := c - int k\<rparr>
      else t\<lparr>isRestTimerActive := False, isRestTimerPaused := False,
             showRestCompleteModal := True, restTimerCountdown := 0\<rparr>)"
proof (induction k)
  case 0
  then show ?case by simp
next
  case (Suc k)
  then show ?case
    by (auto simp: restTimerTick_def)
qed

text \<open>
  Claim C6. When the current exercise has rest time \<open>N > 0\<close>, \<open>startRestTimer\<close> sets the
  countdown to \<open>N\<close>; after \<open>k\<close> ticks without a pause the countdown is \<open>N - k\<close>, and
  \<open>0\<close> from the \<open>N\<close>-th tick on, so it is never negative and is zero exactly from tick
  \<open>N\<close>; the timer is active exactly while fewer than \<open>N\<close> ticks have passed, and the
  rest-complete modal is raised, as a change of state, by the \<open>N\<close>-th tick and not before.
\<close>

theorem rest_timer_reaches_zero_after_N_ticks:
  assumes "currentRestTime s = N" and "0 < N"
  shows "restTimerCountdown (startRestTimer s) = N
       \<and> restTimerCountdown ((restTimerTick ^^ k) (startRestTimer s)) = max 0 (N - int k)
       \<and> 0 \<le> restTimerCountdown ((restTimerTick ^^ k) (startRestTimer s))
       \<and> (isRestTimerActive ((restTimerTick ^^ k) (startRestTimer s)) \<longleftrightarrow> int k < N)
       \<and> (showRestCompleteModal ((restTimerTick ^^ k) (startRestTimer s))
            \<longleftrightarrow> N \<le> int k \<or> showRestCompleteModal s)
       \<and> restTimerCountdown ((restTimerTick ^^ nat N) (startRestTimer s)) = 0"
proof -
  let ?t = "startRestTimer s"
  have t: "isRestTimerActive ?t" "\<not> isRestTimerPaused ?t" "restTimerCountdown ?t = N"
    "showRestCompleteModal ?t = showRestCompleteModal s"
    using assms by (simp_all add: startRestTimer_def)
  note ticks = restTimerTick_funpow [OF t(1) t(2) t(3) assms(2)]
  have "restTimerCountdown ((restTimerTick ^^ nat N) ?t) = 0"
    using assms(2) by (simp add: ticks [of "nat N"])
  then show ?thesis
    using t assms(2) by (simp add: ticks [of k])
qed

theorem rest_timer_reaches_zero_after_N_ticks_witness:
  "currentRestTime example_started = 60
   \<and> restTimerCountdown ((restTimerTick ^^ 59) (startRestTimer example_started)) = 1
   \<and> isRestTimerActive ((restTimerTick ^^ 59) (startRestTimer example_started))
   \<and> \<not> showRestCompleteModal ((restTimerTick ^^ 59) (startRestTimer example_started))
   \<and> restTimerCountdown ((restTimerTick ^^ 60) (startRestTimer example_started)) = 0
   \<and> \<not> isRestTimerActive ((restTimerTick ^^ 60) (startRestTimer example_started))
   \<and> showRestCompleteModal ((restTimerTick ^^ 60) (startRestTimer example_started))"
proof -
  have a: "currentRestTime example_started = 60"
    by code_simp
  have b: "(0::int) < 60"
    by simp
  have c: "\<not> showRestCompleteModal example_started"
    by code_simp
  show ?thesis
    using a c rest_timer_reaches_zero_after_N_ticks [OF a b, of 59]
      rest_timer_reaches_zero_after_N_ticks [OF a b, of 60]
    by simp
qed

subsection \<open>completeExercise: validation and failed requests\<close>

lemmas alert_defs = completeFailedAlert_def noSetsAlert_def workoutCompleteAlert_def
  skipFailedAlert_def workoutFinishedAlert_def refreshDashboardRequest_def

text \<open>
  Claim C1, as stated, fails: with no set logged and a user lookup that returns no user,
  \<open>completeExercise\<close> raises the generic failure alert and never reaches the
  validation alert.
\<close>

theorem completeExercise_without_sets_no_user_counterexample:
  "currentProgress example_started = Some (initialProgress example_press)
   \<and> sets (initialProgress example_press) = Some []
   \<and> snd (completeExercise (example_env\<lparr>getCurrentUser := UserNull\<rparr>) example_started)
       = [GetCurrentUserCall, completeFailedAlert]
   \<and> noSetsAlert \<notin> set (snd (completeExercise (example_env\<lparr>getCurrentUser := UserNull\<rparr>)
                               example_started))"
  by code_simp

text \<open>
  Claim C1, amended. When a current exercise and its progress object exist and no set is
  logged, \<open>completeExercise\<close> submits no exercise log and makes no other request; the
  state after the call is the state before it with the completing flag cleared, hence
  the same state when the flag was clear; the alert raised is the validation alert when
  the user lookup returns a user and the generic failure alert otherwise.
\<close>

theorem completeExercise_without_sets_aborts:
  assumes "currentExercise s = Some ex" and "currentProgress s = Some pr" and "noSetsLogged pr"
  shows "fst (completeExercise env s) = s\<lparr>isCompletingExercise := False\<rparr>
       \<and> (\<not> isCompletingExercise s \<longrightarrow> fst (completeExercise env s) = s)
       \<and> currentExerciseIndex (fst (completeExercise env s)) = currentExerciseIndex s
       \<and> \<not> list_ex is_log_request (snd (completeExercise env s))
       \<and> snd (completeExercise env s) =
           [GetCurrentUserCall,
            if getCurrentUser env = UserFound then noSetsAlert else completeFailedAlert]"
proof (cases "getCurrentUser env = UserFound")
  case True
  show ?thesis
    by (simp add: completeExercise_no_sets [OF assms(1,2) True assms(3)] True noSetsAlert_def)
next
  case False
  show ?thesis
    by (simp add: completeExercise_no_user [OF assms(1,2) False] False completeFailedAlert_def)
qed

theorem completeExercise_without_sets_aborts_witness:
  "currentExercise example_started = Some example_press
   \<and> currentProgress example_started = Some (initialProgress example_press)
   \<and> noSetsLogged (initialProgress example_press)
   \<and> fst (completeExercise example_env example_started) = example_started
   \<and> snd (completeExercise example_env example_started) = [GetCurrentUserCall, noSetsAlert]"
proof -
  have a: "currentExercise example_started = Some example_press"
    by code_simp
  have b: "currentProgress example_started = Some (initialProgress example_press)"
    by code_simp
  have c: "noSetsLogged (initialProgress example_press)"
    by code_simp
  have d: "\<not> isCompletingExercise example_started"
    by code_simp
  have e: "getCurrentUser example_env = UserFound"
    by (simp add: example_env_def)
  from completeExercise_without_sets_aborts [OF a b c, of example_env] d e
  have "fst (completeExercise example_env example_started) = example_started"
    and "snd (completeExercise example_env example_started) = [GetCurrentUserCall, noSetsAlert]"
    by simp_all
  with a b c show ?thesis
    by blast
qed

text \<open>
  Claim C2. If \<open>completeExercise\<close> made the exercise-log request and that request
  throws, or made the day-completion request and that request throws (or made the
  dashboard refresh request and that throws), then the last effect of the call is the
  failure alert, and the cursor, the day-completed flag and the progress objects are
  what they were before the call; indeed the whole state is the state before the call
  with the completing flag cleared, so the call can be repeated.
\<close>

theorem completeExercise_failed_request_keeps_state:
  assumes "(list_ex is_log_request (snd (completeExercise env s)) \<and> \<not> createExerciseLog_ok env)
         \<or> (list_ex is_day_completion_request (snd (completeExercise env s))
              \<and> \<not> markPlanDayAsComplete_ok env)
         \<or> (list_ex is_refresh_request (snd (completeExercise env s))
              \<and> \<not> refreshDashboard_ok env)"
  shows "last (snd (completeExercise env s)) = completeFailedAlert
       \<and> currentExerciseIndex (fst (completeExercise env s)) = currentExerciseIndex s
       \<and> isWorkoutCompleted (fst (completeExercise env s)) = isWorkoutCompleted s
       \<and> exerciseProgress (fst (completeExercise env s)) = exerciseProgress s
       \<and> fst (completeExercise env s) = s\<lparr>isCompletingExercise := False\<rparr>"
  using assms
  by (cases rule: completeExercise_cases [of s env]) (simp_all add: alert_defs)

theorem completeExercise_failed_request_keeps_state_witness:
  "list_ex is_day_completion_request
     (snd (completeExercise (example_env\<lparr>markPlanDayAsComplete_ok := False\<rparr>) example_last))
   \<and> \<not> markPlanDayAsComplete_ok (example_env\<lparr>markPlanDayAsComplete_ok := False\<rparr>)
   \<and> last (snd (completeExercise (example_env\<lparr>markPlanDayAsComplete_ok := False\<rparr>)
                  example_last)) = completeFailedAlert
   \<and> currentExerciseIndex
        (fst (completeExercise (example_env\<lparr>markPlanDayAsComplete_ok := False\<rparr>) example_last))
       = 1
   \<and> \<not> isWorkoutCompleted
        (fst (completeExercise (example_env\<lparr>markPlanDayAsComplete_ok := False\<rparr>) example_last))"
proof -
  let ?env = "example_env\<lparr>markPlanDayAsComplete_ok := False\<rparr>"
  have a: "list_ex is_day_completion_request (snd (completeExercise ?env example_last))"
    by code_simp
  have b: "\<not> markPlanDayAsComplete_ok ?env"
    by simp
  have c: "currentExerciseIndex example_last = 1"
    by code_simp
  have d: "\<not> isWorkoutCompleted example_last"
    by code_simp
  from completeExercise_failed_request_keeps_state [of ?env example_last] a b
  have "last (snd (completeExercise ?env example_last)) = completeFailedAlert"
    and "currentExerciseIndex (fst (completeExercise ?env example_last))
           = currentExerciseIndex example_last"
    and "isWorkoutCompleted (fst (completeExercise ?env example_last))
           = isWorkoutCompleted example_last"
    by blast+
  with a b c d show ?thesis
    by simp
qed

subsection \<open>Advancing the cursor and the rest timer\<close>

text \<open>
  Neither \<open>completeExercise\<close> nor \<open>skipCurrentExercise\<close> touches the rest timer.
\<close>

lemma complete_and_skip_leave_rest_timer:
  "isRestTimerActive (fst (completeExercise env s)) = isRestTimerActive s
   \<and> isRestTimerPaused (fst (completeExercise env s)) = isRestTimerPaused s
   \<and> restTimerCountdown (fst (completeExercise env s)) = restTimerCountdown s
   \<and> isRestTimerActive (fst (skipCurrentExercise env s)) = isRestTimerActive s
   \<and> isRestTimerPaused (fst (skipCurrentExercise env s)) = isRestTimerPaused s
   \<and> restTimerCountdown (fst (skipCurrentExercise env s)) = restTimerCountdown s"
proof -
  have "isRestTimerActive (fst (completeExercise env s)) = isRestTimerActive s
      \<and> isRestTimerPaused (fst (completeExercise env s)) = isRestTimerPaused s
      \<and> restTimerCountdown (fst (completeExercise env s)) = restTimerCountdown s"
    by (cases rule: completeExercise_cases [of s env]) simp_all
  moreover have "isRestTimerActive (fst (skipCurrentExercise env s)) = isRestTimerActive s
      \<and> isRestTimerPaused (fst (skipCurrentExercise env s)) = isRestTimerPaused s
      \<and> restTimerCountdown (fst (skipCurrentExercise env s)) = restTimerCountdown s"
    by (cases rule: skipCurrentExercise_cases [of s env]) (simp_all add: markSkipped_def)
  ultimately show ?thesis
    by simp
qed

text \<open>
  Claim C5 at a failing input. In the example session a rest timer of 60 seconds is
  started on the first exercise, a set is logged and the exercise is completed. The
  cursor is then on the second exercise, which has no rest time, and the timer started
  for the first exercise is still active, not paused, at 60 seconds, and goes on counting
  down; the same holds when the first exercise is skipped instead of completed.
\<close>

theorem rest_timer_survives_advance:
  "currentExerciseIndex (startRestTimer example_started) = 0
   \<and> currentExerciseIndex example_rested = 1
   \<and> currentRestTime example_rested = 0
   \<and> isRestTimerActive example_rested
   \<and> \<not> isRestTimerPaused example_rested
   \<and> restTimerCountdown example_rested = 60
   \<and> restTimerCountdown (restTimerTick example_rested) = 59
   \<and> currentExerciseIndex (fst (skipCurrentExercise example_env (startRestTimer example_started)))
       = 1
   \<and> isRestTimerActive (fst (skipCurrentExercise example_env (startRestTimer example_started)))
   \<and> restTimerCountdown (fst (skipCurrentExercise example_env (startRestTimer example_started)))
       = 60"
  by code_simp

subsection \<open>updateProgress\<close>

lemma js_index_js_assign:
  "js_index (js_assign xs i v) j = (if j = i then Some v else js_index xs j)"
  by (auto simp: js_index_def js_assign_def nth_append)

lemma length_js_assign: "i < length xs \<Longrightarrow> length (js_assign xs i v) = length xs"
  by (simp add: js_assign_def)

lemma get_field_set_field_same: "get_field (field_of u) (set_field u p) = Some (value_of u)"
  by (cases u) simp_all

lemma get_field_set_field_other:
  "f \<noteq> field_of u \<Longrightarrow> get_field f (set_field u p) = get_field f p"
  by (cases u; cases f) simp_all

text \<open>
  Claim C9. After \<open>updateProgress(field, value)\<close> the progress object at the cursor is
  the object that was there (the empty object when there was none) with the named
  property set to the value: the named property reads the value and every other
  property reads what it read before. The entry at every other index reads as before,
  an array that had an entry at the cursor keeps its length, and nothing else of the
  state changes: the cursor, the day state and both elapsed timers are the same.
\<close>

theorem updateProgress_changes_only_named_field:
  "currentProgress (updateProgress u s)
     = Some (set_field u (case currentProgress s of None \<Rightarrow> empty_progress | Some p \<Rightarrow> p))
   \<and> (\<forall>p'. currentProgress (updateProgress u s) = Some p' \<longrightarrow>
         get_field (field_of u) p' = Some (value_of u)
         \<and> (\<forall>f. f \<noteq> field_of u \<longrightarrow>
               get_field f p'
                 = get_field f (case currentProgress s of None \<Rightarrow> empty_progress
                                | Some p \<Rightarrow> p)))
   \<and> (\<forall>j. j \<noteq> currentExerciseIndex s \<longrightarrow>
         js_index (exerciseProgress (updateProgress u s)) j = js_index (exerciseProgress s) j)
   \<and> (currentExerciseIndex s < length (exerciseProgress s) \<longrightarrow>
         length (exerciseProgress (updateProgress u s)) = length (exerciseProgress s))
   \<and> updateProgress u s = s\<lparr>exerciseProgress := exerciseProgress (updateProgress u s)\<rparr>
   \<and> currentExerciseIndex (updateProgress u s) = currentExerciseIndex s
   \<and> dayState (updateProgress u s) = dayState s
   \<and> workoutTimer (updateProgress u s) = workoutTimer s
   \<and> exerciseTimer (updateProgress u s) = exerciseTimer s"
  by (simp add: updateProgress_def currentProgress_def js_index_js_assign length_js_assign
      get_field_set_field_same get_field_set_field_other dayState_def)

theorem updateProgress_changes_only_named_field_witness:
  "currentProgress (updateProgress (Notes ''slow'') example_started)
     = Some ((initialProgress example_press)\<lparr>notes_text := Some ''slow''\<rparr>)
   \<and> get_field F_notes ((initialProgress example_press)\<lparr>notes_text := Some ''slow''\<rparr>)
       = Some (TextValue ''slow'')
   \<and> get_field F_weightUsed ((initialProgress example_press)\<lparr>notes_text := Some ''slow''\<rparr>)
       = Some (NumberValue 50)
   \<and> js_index (exerciseProgress (updateProgress (Notes ''slow'') example_started)) 1
       = Some (initialProgress example_plank)
   \<and> length (exerciseProgress (updateProgress (Notes ''slow'') example_started)) = 2"
proof -
  let ?s' = "updateProgress (Notes ''slow'') example_started"
  let ?p' = "(initialProgress example_press)\<lparr>notes_text := Some ''slow''\<rparr>"
  note frame = updateProgress_changes_only_named_field [of "Notes ''slow''" example_started]
  have a: "currentProgress example_started = Some (initialProgress example_press)"
    by code_simp
  have b: "currentExerciseIndex example_started = 0"
    by code_simp
  have c: "js_index (exerciseProgress example_started) 1 = Some (initialProgress example_plank)"
    by code_simp
  have d: "length (exerciseProgress example_started) = 2"
    by code_simp
  have e: "get_field F_weightUsed (initialProgress example_press) = Some (NumberValue 50)"
    by code_simp
  have cur: "currentProgress ?s' = Some ?p'"
    using frame a by simp
  have "get_field F_notes ?p' = Some (TextValue ''slow'')"
    and "get_field F_weightUsed ?p' = Some (NumberValue 50)"
    using frame cur a e by simp_all
  moreover have "js_index (exerciseProgress ?s') 1 = Some (initialProgress example_plank)"
    using frame b c by simp
  moreover have "length (exerciseProgress ?s') = 2"
    using frame b d by simp
  ultimately show ?thesis
    using cur by blast
qed

subsection \<open>Skipping and the cursor\<close>


lemma allProcessed_on_last:
  "\<not> currentExerciseIndex s + 1 < length (getFlattenedExercises s) \<Longrightarrow> allProcessed s"
  by (auto simp: allProcessed_def list_all_iff in_set_enumerate_eq)



subsection \<open>Completing the day\<close>

lemma currentExercise_at_end:
  "currentExerciseIndex t = length (getFlattenedExercises t) \<Longrightarrow> currentExercise t = None"
  by (simp add: currentExercise_def js_nth_def)

lemma completeExercise_completes_day:
  assumes e: "currentExercise s = Some ex" and p: "currentProgress s = Some pr"
    and z: "currentExerciseIndex s + 1 = length (getFlattenedExercises s)"
    and w: "workout_id s \<noteq> 0"
    and u: "getCurrentUser env = UserFound" and n: "\<not> noSetsLogged pr"
    and l: "createExerciseLog_ok env" and m: "markPlanDayAsComplete_ok env"
    and r: "refreshDashboard_ok env"
  shows "dayState (fst (completeExercise env s)) = Completed
       \<and> currentExerciseIndex (fst (completeExercise env s)) = length (getFlattenedExercises s)
       \<and> filter is_day_completion_request (snd (completeExercise env s))
           = [MarkPlanDayAsCompleteRequest (workout_id s)]
       \<and> completeExercise env' (fst (completeExercise env s))
           = (fst (completeExercise env s), [])
       \<and> skipCurrentExercise env' (fst (completeExercise env s))
           = (fst (completeExercise env s), [])"
proof -
  let ?s' = "s\<lparr>currentExerciseIndex := length (getFlattenedExercises s),
                isWorkoutCompleted := True, isWorkoutInProgress := False,
                showCompleteModal := False, isCompletingExercise := False\<rparr>"
  have z': "\<not> currentExerciseIndex s + 1 < length (getFlattenedExercises s)"
    using z by simp
  have eq: "completeExercise env s =
      (?s', [GetCurrentUserCall, CreateExerciseLogRequest (exerciseLogParams s ex pr)]
            @ [MarkPlanDayAsCompleteRequest (workout_id s), refreshDashboardRequest env,
               workoutCompleteAlert])"
    by (simp only: completeExercise_last [OF e p u n l z'] completeWorkout_done [OF w m r])
  have "currentExerciseIndex ?s' = length (getFlattenedExercises ?s')"
    by (simp add: getFlattenedExercises_def)
  then have none: "currentExercise ?s' = None"
    by (rule currentExercise_at_end)
  have "completeExercise env' ?s' = (?s', [])"
    by (rule completeExercise_idle) (simp only: none simp_thms)
  moreover have "skipCurrentExercise env' ?s' = (?s', [])"
    by (rule skipCurrentExercise_idle) (simp only: none simp_thms)
  moreover have "dayState ?s' = Completed"
    by (simp add: dayState_def)
  moreover have "filter is_day_completion_request (snd (completeExercise env s))
      = [MarkPlanDayAsCompleteRequest (workout_id s)]"
    by (simp add: eq alert_defs)
  ultimately show ?thesis
    by (simp add: eq)
qed

lemma skipCurrentExercise_completes_day:
  assumes e: "currentExercise s = Some ex"
    and z: "currentExerciseIndex s + 1 = length (getFlattenedExercises s)"
    and w: "workout_id s \<noteq> 0"
    and k: "skipExercise_ok env" and m: "markPlanDayAsComplete_ok env"
  shows "dayState (fst (skipCurrentExercise env s)) = Completed
       \<and> currentExerciseIndex (fst (skipCurrentExercise env s))
           = length (getFlattenedExercises s)
       \<and> filter is_day_completion_request (snd (skipCurrentExercise env s))
           = [MarkPlanDayAsCompleteRequest (workout_id s)]
       \<and> completeExercise env' (fst (skipCurrentExercise env s))
           = (fst (skipCurrentExercise env s), [])
       \<and> skipCurrentExercise env' (fst (skipCurrentExercise env s))
           = (fst (skipCurrentExercise env s), [])"
proof -
  let ?s' = "(markSkipped ex s)\<lparr>currentExerciseIndex := length (getFlattenedExercises s),
                isWorkoutCompleted := True, isWorkoutInProgress := False,
                showSkipModal := False, isSkippingExercise := False\<rparr>"
  from w obtain d where d: "workout s = Some d" and i: "id_day d \<noteq> 0"
    by (auto simp: workout_id_def split: option.splits)
  have wid: "workout_id s = id_day d"
    by (simp add: workout_id_def d)
  have z': "\<not> currentExerciseIndex s + 1 < length (getFlattenedExercises s)"
    using z by simp
  have a: "allProcessed s \<and> id_day d \<noteq> 0"
    using allProcessed_on_last [OF z'] i by simp
  have eq: "skipCurrentExercise env s =
      (?s', [SkipExerciseRequest (workoutId d) (id_ex ex),
             MarkPlanDayAsCompleteRequest (id_day d), workoutFinishedAlert])"
    by (rule skipCurrentExercise_finished [OF e d k z' a m])
  have "currentExerciseIndex ?s' = length (getFlattenedExercises ?s')"
    by (simp add: getFlattenedExercises_def markSkipped_def)
  then have none: "currentExercise ?s' = None"
    by (rule currentExercise_at_end)
  have "completeExercise env' ?s' = (?s', [])"
    by (rule completeExercise_idle) (simp only: none simp_thms)
  moreover have "skipCurrentExercise env' ?s' = (?s', [])"
    by (rule skipCurrentExercise_idle) (simp only: none simp_thms)
  moreover have "dayState ?s' = Completed"
    by (simp add: dayState_def)
  moreover have "filter is_day_completion_request (snd (skipCurrentExercise env s))
      = [MarkPlanDayAsCompleteRequest (workout_id s)]"
    by (simp add: eq wid alert_defs)
  ultimately show ?thesis
    by (simp add: eq)
qed

text \<open>
  Claim C4, as stated, fails. On the last exercise of the example plan, with a set
  logged: when the day-completion request throws, \<open>completeExercise\<close> has submitted
  the request and the day is still in progress; and on a plan day whose id is zero,
  with every request succeeding, \<open>skipCurrentExercise\<close> submits no day-completion
  request and leaves the day in progress with the cursor on the last exercise, while
  \<open>completeExercise\<close> completes the day without submitting the request.
\<close>

theorem last_exercise_not_always_completed_counterexample:
  "currentExerciseIndex example_last + 1 = length (getFlattenedExercises example_last)
   \<and> dayState example_last = InProgress
   \<and> list_ex is_day_completion_request
        (snd (completeExercise (example_env\<lparr>markPlanDayAsComplete_ok := False\<rparr>) example_last))
   \<and> dayState (fst (completeExercise (example_env\<lparr>markPlanDayAsComplete_ok := False\<rparr>)
                       example_last)) = InProgress
   \<and> \<not> list_ex is_day_completion_request
        (snd (skipCurrentExercise example_env
                (example_last\<lparr>workout := Some (example_day\<lparr>id_day := 0\<rparr>)\<rparr>)))
   \<and> dayState (fst (skipCurrentExercise example_env
                       (example_last\<lparr>workout := Some (example_day\<lparr>id_day := 0\<rparr>)\<rparr>)))
       = InProgress
   \<and> currentExerciseIndex
        (fst (skipCurrentExercise example_env
                (example_last\<lparr>workout := Some (example_day\<lparr>id_day := 0\<rparr>)\<rparr>))) = 1
   \<and> \<not> list_ex is_day_completion_request
        (snd (completeExercise example_env
                (example_last\<lparr>workout := Some (example_day\<lparr>id_day := 0\<rparr>)\<rparr>)))
   \<and> dayState (fst (completeExercise example_env
                       (example_last\<lparr>workout := Some (example_day\<lparr>id_day := 0\<rparr>)\<rparr>)))
       = Completed"
  by code_simp

text \<open>
  Claim C4, amended. Let the cursor be on the last exercise of a plan day with a
  non-zero id, and let the day-completion request succeed. If \<open>completeExercise\<close>
  passes its checks (a progress object with at least one set, a user) and its log and
  dashboard requests succeed, or if the request of \<open>skipCurrentExercise\<close> succeeds, then the
  call submits the day-completion request for this plan day exactly once, the day state
  is \<open>Completed\<close> and the cursor equals the exercise count; in the state reached, any
  further \<open>completeExercise\<close> or \<open>skipCurrentExercise\<close>, whatever the collaborators
  do, changes nothing and performs no effect.
\<close>

theorem last_exercise_completes_day_once:
  assumes "currentExercise s = Some ex"
    and "currentExerciseIndex s + 1 = length (getFlattenedExercises s)"
    and "workout_id s \<noteq> 0" and "markPlanDayAsComplete_ok env"
  shows "(currentProgress s = Some pr \<and> \<not> noSetsLogged pr \<and> getCurrentUser env = UserFound
          \<and> createExerciseLog_ok env \<and> refreshDashboard_ok env \<longrightarrow>
            dayState (fst (completeExercise env s)) = Completed
          \<and> currentExerciseIndex (fst (completeExercise env s))
              = length (getFlattenedExercises s)
          \<and> filter is_day_completion_request (snd (completeExercise env s))
              = [MarkPlanDayAsCompleteRequest (workout_id s)]
          \<and> completeExercise env' (fst (completeExercise env s))
              = (fst (completeExercise env s), [])
          \<and> skipCurrentExercise env' (fst (completeExercise env s))
              = (fst (completeExercise env s), []))
       \<and> (skipExercise_ok env \<longrightarrow>
            dayState (fst (skipCurrentExercise env s)) = Completed
          \<and> currentExerciseIndex (fst (skipCurrentExercise env s))
              = length (getFlattenedExercises s)
          \<and> filter is_day_completion_request (snd (skipCurrentExercise env s))
              = [MarkPlanDayAsCompleteRequest (workout_id s)]
          \<and> completeExercise env' (fst (skipCurrentExercise env s))
              = (fst (skipCurrentExercise env s), [])
          \<and> skipCurrentExercise env' (fst (skipCurrentExercise env s))
              = (fst (skipCurrentExercise env s), []))"
  using completeExercise_completes_day [OF assms(1) _ assms(2,3) _ _ _ assms(4), of pr env']
    skipCurrentExercise_completes_day [OF assms(1,2,3) _ assms(4), of env']
  by blast

theorem last_exercise_completes_day_once_witness:
  "currentExercise example_last = Some example_plank
   \<and> currentExerciseIndex example_last + 1 = length (getFlattenedExercises example_last)
   \<and> workout_id example_last = 7
   \<and> dayState example_last = InProgress
   \<and> dayState (fst (completeExercise example_env example_last)) = Completed
   \<and> filter is_day_completion_request (snd (completeExercise example_env example_last))
       = [MarkPlanDayAsCompleteRequest 7]
   \<and> completeExercise (example_env\<lparr>createExerciseLog_ok := False\<rparr>)
        (fst (completeExercise example_env example_last))
       = (fst (completeExercise example_env example_last), [])
   \<and> dayState (fst (skipCurrentExercise example_env example_last)) = Completed
   \<and> filter is_day_completion_request (snd (skipCurrentExercise example_env example_last))
       = [MarkPlanDayAsCompleteRequest 7]"
proof -
  let ?pr = "(initialProgress example_plank)\<lparr>sets := Some [example_set]\<rparr>"
  have a: "currentExercise example_last = Some example_plank"
    by code_simp
  have b: "currentExerciseIndex example_last + 1 = length (getFlattenedExercises example_last)"
    by code_simp
  have c: "workout_id example_last = 7"
    by code_simp
  then have c': "workout_id example_last \<noteq> 0"
    by simp
  have d: "markPlanDayAsComplete_ok example_env"
    by (simp add: example_env_def)
  have e: "currentProgress example_last = Some ?pr"
    by code_simp
  have f: "\<not> noSetsLogged ?pr"
    by code_simp
  have g: "getCurrentUser example_env = UserFound \<and> createExerciseLog_ok example_env
           \<and> refreshDashboard_ok example_env \<and> skipExercise_ok example_env"
    by (simp add: example_env_def)
  have h: "dayState example_last = InProgress"
    by code_simp
  from last_exercise_completes_day_once
         [OF a b c' d, of ?pr "example_env\<lparr>createExerciseLog_ok := False\<rparr>"] e f g
  have "dayState (fst (completeExercise example_env example_last)) = Completed"
    and "filter is_day_completion_request (snd (completeExercise example_env example_last))
           = [MarkPlanDayAsCompleteRequest (workout_id example_last)]"
    and "completeExercise (example_env\<lparr>createExerciseLog_ok := False\<rparr>)
           (fst (completeExercise example_env example_last))
         = (fst (completeExercise example_env example_last), [])"
    and "dayState (fst (skipCurrentExercise example_env example_last)) = Completed"
    and "filter is_day_completion_request (snd (skipCurrentExercise example_env example_last))
           = [MarkPlanDayAsCompleteRequest (workout_id example_last)]"
    by blast+
  with a b c h show ?thesis
    by simp
qed

subsection \<open>Dates\<close>

text \<open>
  \<open>loadWorkout\<close> selects the first plan day whose date, formatted by
  \<open>formatDateAsString\<close>, equals the string \<open>getCurrentDate()\<close>.
\<close>

lemma todaysWorkout_selects:
  assumes "todaysWorkout env planDays = Some day"
  shows "day \<in> set planDays \<and> formatDateAsString env (date day) = getCurrentDate env"
proof -
  from assms obtain i where "i < length planDays" and "planDays ! i = day"
    and "formatDateAsString env (date day) = getCurrentDate env"
    by (auto simp: todaysWorkout_def find_Some_iff)
  then show ?thesis
    by auto
qed

text \<open>
  Claim C8 at a failing input. The device is eight hours behind UTC
  (\<open>getTimezoneOffset() = 480\<close>) and the last exercise is completed at 17:00 local time
  on 2024-01-01, which is 01:00 UTC on 2024-01-02. The range sent to the dashboard
  refresh is 2023-12-03 to 2024-01-09, the UTC dates of the two instants, while their
  local dates are 2023-12-02 and 2024-01-08.
\<close>

theorem dashboard_refresh_sends_utc_dates:
  "local_date_string 480 (now example_env) = ''2024-01-01''
   \<and> toISOString_date (now example_env) = ''2024-01-02''
   \<and> RefreshDashboardRequest ''2023-12-03'' ''2024-01-09''
        \<in> set (snd (completeExercise example_env example_last))
   \<and> local_date_string 480 (setDate_plus (now example_env) (- 30)) = ''2023-12-02''
   \<and> local_date_string 480 (setDate_plus (now example_env) 7) = ''2024-01-08''"
  by code_simp

subsection \<open>The cursor over a session\<close>




















subsection \<open>Skipped exercises in the overall progress\<close>






end
